theory Spec2Isabelle
  imports Complex_Main "HOL-Library.AList" "HOL-Library.Sublist"
begin

section \<open>JavaScript values used by the metrics code\<close>

text \<open>
  Numbers are JavaScript doubles in the source. They are embedded as exact rationals:
  the sums, quotients and comparisons below are those of the source, evaluated without
  rounding error; \<open>NaN\<close> and the infinities are outside the embedding. An optional
  object field is an \<open>option\<close>, with \<open>None\<close> for a field that is absent
  (\<open>undefined\<close>). Calendar days (ISO strings \<open>YYYY-MM-DD\<close> in the source, compared as
  text by SQLite) are day ordinals of type \<open>int\<close>: the next day is \<open>d + 1\<close>, as
  \<open>setDate(getDate() + 1)\<close> followed by \<open>toISOString()\<close> yields on a server whose
  local time is UTC. Timestamps are milliseconds.
\<close>

definition or_num :: "rat option \<Rightarrow> rat" where
  \<comment> \<open>\<open>x || 0\<close> on an optional number: absent and \<open>0\<close> both give \<open>0\<close>.\<close>
  "or_num x = (case x of None \<Rightarrow> 0 | Some v \<Rightarrow> v)"

definition or_nat :: "nat option \<Rightarrow> nat" where
  \<comment> \<open>\<open>x || 0\<close> on an optional count.\<close>
  "or_nat x = (case x of None \<Rightarrow> 0 | Some v \<Rightarrow> v)"

definition truthy :: "string option \<Rightarrow> bool" where
  \<comment> \<open>An optional string is truthy when it is present and not empty.\<close>
  "truthy x = (case x of None \<Rightarrow> False | Some s \<Rightarrow> s \<noteq> [])"

definition or_str :: "string option \<Rightarrow> string \<Rightarrow> string" where
  \<comment> \<open>\<open>x || d\<close> on an optional string.\<close>
  "or_str x d = (case x of None \<Rightarrow> d | Some s \<Rightarrow> if s = [] then d else s)"

definition toFixed2 :: "rat \<Rightarrow> rat" where
  \<comment> \<open>\<open>parseFloat(x.toFixed(2))\<close>: the nearest multiple of 1/100, the larger one on a tie.\<close>
  "toFixed2 x = of_int \<lfloor>x * 100 + 1 / 2\<rfloor> / 100"

definition includes_str :: "string \<Rightarrow> string \<Rightarrow> bool" where
  \<comment> \<open>\<open>s.includes(t)\<close>\<close>
  "includes_str s t = sublist t s"

section \<open>Rows and reports\<close>

text \<open>
  One record type holds every field a report row can carry: the fields written by
  \<open>transformReportData\<close>, the snake-case fields read by \<open>aggregateMetrics\<close>, and
  the fields \<open>aggregateMetrics\<close> and \<open>aggregateDays\<close> add.
\<close>

record row =
  date :: "string option"
  impressions :: "rat option"
  clicks :: "rat option"
  ctr :: "rat option"
  revenue :: "rat option"
  ecpm :: "rat option"
  unfilled :: "rat option"
  unfilled_impressions :: "rat option"
  adUnitName :: "string option"
  domain :: "string option"
  orderName :: "string option"
  lineItemName :: "string option"
  ad_unit_name :: "string option"
  order_name :: "string option"
  line_item_name :: "string option"
  name :: "string option"
  original_currency :: "string option"
  accounts :: "string list option"
  currencies :: "string list option"

definition empty_row :: row where
  "empty_row = \<lparr> date = None, impressions = None, clicks = None, ctr = None, revenue = None,
     ecpm = None, unfilled = None, unfilled_impressions = None, adUnitName = None,
     domain = None, orderName = None, lineItemName = None, ad_unit_name = None,
     order_name = None, line_item_name = None, name = None, original_currency = None,
     accounts = None, currencies = None \<rparr>"

text \<open>The \<open>totals\<close> object of a report (fields prefixed \<open>t_\<close>).\<close>

record totals =
  t_impressions :: rat
  t_clicks :: rat
  t_revenue :: rat
  t_unfilled_impressions :: rat
  t_ctr :: rat
  t_ecpm :: rat
  t_requests_served :: rat
  t_pmr :: rat
  t_active_view :: rat

text \<open>An entry of a report's \<open>accounts\<close> list and of its \<open>errors\<close> list.\<close>

record account_summary =
  s_id :: nat
  s_name :: string
  s_success :: bool
  s_dataCount :: nat

datatype error_value = Err_text string | Err_object "nat option" string

record account_failure =
  f_account :: string
  f_error :: error_value

text \<open>
  The JSON body that \<open>getMultiAccountStatistics\<close> sends, that \<open>saveDayData\<close> stores and
  that \<open>aggregateDays\<close> reads and builds (fields prefixed \<open>r_\<close>). \<open>FloatingNumbers\<close> is
  an object with computed keys, kept as an association list in insertion order.
\<close>

record report =
  r_success :: bool
  r_data :: "row list option"
  r_totals :: "totals option"
  r_FloatingNumbers :: "(string \<times> rat) list option"
  r_message :: "string option"
  r_error :: "string option"
  r_accountCount :: "nat option"
  r_successfulAccounts :: "nat option"
  r_failedAccounts :: "nat option"
  r_accounts :: "account_summary list option"
  r_errors :: "account_failure list option"

text \<open>What a route handler does with its response object: \<open>res.json(body)\<close> or
  \<open>res.status(code).json(body)\<close>.\<close>

datatype response = Json report | Status nat report

section \<open>The persistent day store (gam-data-store.js)\<close>

text \<open>The \<open>data\<close> column holds text: the JSON of a report, of \<open>null\<close>, or text that
  \<open>JSON.parse\<close> rejects.\<close>

datatype blob = Malformed | Json_text "report option"

record table_row =
  user_id :: nat
  date_col :: int
  dimension_type :: string
  data_col :: blob
  account_count :: nat
  successful_accounts :: nat
  updated_at :: int

text \<open>
  The module state: the two flags, the table \<open>gam_daily_data\<close>, and a log of the calls
  made to the injected \<open>gamGetMultiAccountStatistics\<close> (not in the source; it records
  whether a fetch happened).
\<close>

record store_state =
  workerRunning :: bool
  userRequestInProgress :: bool
  gam_daily_data :: "table_row list"
  upstream_calls :: "(nat \<times> int \<times> string) list"

text \<open>
  What the module receives from outside: the injected fetch function, the result of the
  admin-user query, the error of the \<open>INSERT\<close> of \<open>saveDayData\<close> if it fails, the
  error of the \<open>SELECT\<close> of \<open>getDataInfo\<close> if it fails, and the clock.
\<close>

record env =
  gamGetMultiAccountStatistics :: "nat \<Rightarrow> int \<Rightarrow> string \<Rightarrow> response"
  admin_users :: "string + nat list"
  insert_error :: "string option"
  select_error :: "string option"
  now_ms :: int
  today :: int
  utc_hour :: nat

definition key_matches :: "nat \<Rightarrow> int \<Rightarrow> string \<Rightarrow> table_row \<Rightarrow> bool" where
  \<comment> \<open>\<open>WHERE user_id = ? AND date = ? AND dimension_type = ?\<close>\<close>
  "key_matches userId d dimensionType r \<longleftrightarrow>
     user_id r = userId \<and> date_col r = d \<and> dimension_type r = dimensionType"

definition saveDayData ::
  "env \<Rightarrow> nat \<Rightarrow> int \<Rightarrow> string \<Rightarrow> report \<Rightarrow> table_row list \<Rightarrow> string + table_row list" where
  \<comment> \<open>\<open>INSERT OR REPLACE\<close> under the unique key (user, date, dimension).\<close>
  "saveDayData e userId d dimensionType result tbl =
     (case insert_error e of
        Some err \<Rightarrow> Inl err
      | None \<Rightarrow>
          Inr (filter (\<lambda>r. \<not> key_matches userId d dimensionType r) tbl @
               [\<lparr> user_id = userId, date_col = d, dimension_type = dimensionType,
                  data_col = Json_text (Some result),
                  account_count = or_nat (r_accountCount result),
                  successful_accounts = or_nat (r_successfulAccounts result),
                  updated_at = now_ms e \<rparr>]))"

definition fake_res :: "response \<Rightarrow> string + report" where
  \<comment> \<open>The fake response object of \<open>fetchAndStoreDay\<close>: \<open>json\<close> resolves, \<open>status(code).json\<close>
      rejects with \<open>data.error || 'API Error'\<close> when \<open>code >= 400\<close>.\<close>
  "fake_res r =
     (case r of
        Json body \<Rightarrow> Inr body
      | Status code body \<Rightarrow>
          if code \<ge> 400 then Inl (or_str (r_error body) ''API Error'') else Inr body)"

definition fetchAndStoreDay ::
  "env \<Rightarrow> nat \<Rightarrow> int \<Rightarrow> string \<Rightarrow> store_state \<Rightarrow> (string + report option) \<times> store_state" where
  \<comment> \<open>\<open>Inl\<close> is a rejection, \<open>Inr None\<close> the \<open>null\<close> returned when a user request is in
      progress. The warming of the Redis cache ignores its errors and leaves this state
      unchanged.\<close>
  "fetchAndStoreDay e userId d dimensionType s =
     (if userRequestInProgress s then (Inr None, s)
      else
        let s1 = s\<lparr>upstream_calls := upstream_calls s @ [(userId, d, dimensionType)]\<rparr> in
        case fake_res (gamGetMultiAccountStatistics e userId d dimensionType) of
          Inl err \<Rightarrow> (Inl err, s1)
        | Inr result \<Rightarrow>
            (case saveDayData e userId d dimensionType result (gam_daily_data s1) of
               Inl err \<Rightarrow> (Inl err, s1)
             | Inr tbl \<Rightarrow> (Inr (Some result), s1\<lparr>gam_daily_data := tbl\<rparr>)))"

subsection \<open>manualRefresh\<close>

datatype refresh_outcome =
    Refresh_ok nat nat nat  \<comment> \<open>\<open>{success: true, domains, accounts, total_accounts}\<close>\<close>
  | Refresh_error string    \<comment> \<open>\<open>{success: false, error}\<close>\<close>

definition null_data_message :: string where
  \<comment> \<open>The message of the \<open>TypeError\<close> raised by \<open>result.data\<close> when \<open>result\<close> is \<open>null\<close>.\<close>
  "null_data_message = ''Cannot read properties of null (reading data)''"

definition manualRefresh_enter :: "store_state \<Rightarrow> store_state option" where
  \<comment> \<open>The guard and the two assignments before the \<open>try\<close>; \<open>None\<close> when the guard returns.\<close>
  "manualRefresh_enter s =
     (if workerRunning s then None
      else Some (s\<lparr>workerRunning := True, userRequestInProgress := True\<rparr>))"

definition manualRefresh_try ::
  "env \<Rightarrow> nat \<Rightarrow> int \<Rightarrow> string \<Rightarrow> store_state \<Rightarrow> refresh_outcome \<times> store_state" where
  \<comment> \<open>The \<open>try\<close> block with its \<open>catch\<close>.\<close>
  "manualRefresh_try e userId d dimensionType s =
     (case fetchAndStoreDay e userId d dimensionType s of
        (Inl err, s') \<Rightarrow> (Refresh_error err, s')
      | (Inr None, s') \<Rightarrow> (Refresh_error null_data_message, s')
      | (Inr (Some result), s') \<Rightarrow>
          (Refresh_ok (case r_data result of None \<Rightarrow> 0 | Some rows \<Rightarrow> length rows)
                      (or_nat (r_successfulAccounts result))
                      (or_nat (r_accountCount result)), s'))"

definition manualRefresh_exit :: "store_state \<Rightarrow> store_state" where
  \<comment> \<open>The \<open>finally\<close> block.\<close>
  "manualRefresh_exit s = s\<lparr>workerRunning := False, userRequestInProgress := False\<rparr>"

definition manualRefresh ::
  "env \<Rightarrow> nat \<Rightarrow> int \<Rightarrow> string \<Rightarrow> store_state \<Rightarrow> refresh_outcome \<times> store_state" where
  "manualRefresh e userId d dimensionType s =
     (case manualRefresh_enter s of
        None \<Rightarrow> (Refresh_error ''Worker is already running. Please wait.'', s)
      | Some s1 \<Rightarrow>
          (case manualRefresh_try e userId d dimensionType s1 of
             (out, s2) \<Rightarrow> (out, manualRefresh_exit s2)))"

subsection \<open>runSmartWorker\<close>

record data_info =
  i_updated_at :: int
  i_account_count :: nat
  i_successful_accounts :: nat
  i_age_minutes :: int

definition getDataInfo ::
  "env \<Rightarrow> nat \<Rightarrow> int \<Rightarrow> string \<Rightarrow> table_row list \<Rightarrow> string + data_info option" where
  "getDataInfo e userId d dimensionType tbl =
     (case select_error e of
        Some err \<Rightarrow> Inl err
      | None \<Rightarrow>
          (case find (key_matches userId d dimensionType) tbl of
             None \<Rightarrow> Inr None
           | Some r \<Rightarrow>
               Inr (Some \<lparr> i_updated_at = updated_at r, i_account_count = account_count r,
                           i_successful_accounts = successful_accounts r,
                           i_age_minutes = (now_ms e - updated_at r) div 60000 \<rparr>)))"

definition shouldRefreshYesterday :: "data_info option \<Rightarrow> bool" where
  "shouldRefreshYesterday yesterdayInfo =
     (case yesterdayInfo of
        None \<Rightarrow> True
      | Some i \<Rightarrow> i_successful_accounts i < i_account_count i \<or> i_age_minutes i > 360)"

definition runSmartWorker_enter :: "store_state \<Rightarrow> store_state option" where
  \<comment> \<open>The two guards and the assignment before the \<open>try\<close>; \<open>None\<close> when a guard returns.\<close>
  "runSmartWorker_enter s =
     (if workerRunning s then None
      else if userRequestInProgress s then None
      else Some (s\<lparr>workerRunning := True\<rparr>))"

definition runSmartWorker_try :: "env \<Rightarrow> store_state \<Rightarrow> bool \<times> store_state" where
  \<comment> \<open>The \<open>try\<close> block with its \<open>catch\<close>, which only logs. The boolean tells whether the
      block ended without an exception. Yesterday is \<open>today - 1\<close>; the 15 s pause before
      its refresh changes nothing in this state.\<close>
  "runSmartWorker_try e s =
     (case admin_users e of
        Inl err \<Rightarrow> (False, s)
      | Inr users \<Rightarrow>
          (case users of
             [] \<Rightarrow> (True, s)
           | userId # _ \<Rightarrow>
               (case fetchAndStoreDay e userId (today e) ''AD_UNIT'' s of
                  (Inl err, s1) \<Rightarrow> (False, s1)
                | (Inr _, s1) \<Rightarrow>
                    if 3 \<le> utc_hour e \<and> utc_hour e \<le> 6 then
                      (case getDataInfo e userId (today e - 1) ''AD_UNIT'' (gam_daily_data s1) of
                         Inl err \<Rightarrow> (False, s1)
                       | Inr yesterdayInfo \<Rightarrow>
                           if shouldRefreshYesterday yesterdayInfo then
                             (if \<not> userRequestInProgress s1 then
                                (case fetchAndStoreDay e userId (today e - 1) ''AD_UNIT'' s1 of
                                   (Inl err, s2) \<Rightarrow> (False, s2)
                                 | (Inr _, s2) \<Rightarrow> (True, s2))
                              else (True, s1))
                           else (True, s1))
                    else (True, s1))))"

definition runSmartWorker_exit :: "store_state \<Rightarrow> store_state" where
  \<comment> \<open>The \<open>finally\<close> block.\<close>
  "runSmartWorker_exit s = s\<lparr>workerRunning := False\<rparr>"

definition runSmartWorker :: "env \<Rightarrow> store_state \<Rightarrow> store_state" where
  "runSmartWorker e s =
     (case runSmartWorker_enter s of
        None \<Rightarrow> s
      | Some s1 \<Rightarrow> runSmartWorker_exit (snd (runSmartWorker_try e s1)))"

definition setUserRequestActive :: "bool \<Rightarrow> store_state \<Rightarrow> store_state" where
  "setUserRequestActive active s = s\<lparr>userRequestInProgress := active\<rparr>"

subsection \<open>Interleaved calls\<close>

text \<open>
  The process runs one piece of code at a time, and every \<open>await\<close> lets other calls run.
  A call of \<open>runSmartWorker\<close> or \<open>manualRefresh\<close> that passes its guard is a pass in
  flight from its entry to its \<open>finally\<close> block; in between, other ticks, manual calls
  and foreground requests (\<open>setUserRequestActive\<close>) may run. The passes in flight are
  kept beside the module state; a pass writes the flags only on entry and in its
  \<open>finally\<close> block, and the table only in between.
\<close>

datatype pass = Worker_pass | Manual_pass

datatype event =
    Tick                             \<comment> \<open>the scheduler calls \<open>runSmartWorker\<close>\<close>
  | Manual_call                      \<comment> \<open>the route calls \<open>manualRefresh\<close>\<close>
  | Pass_stores pass "table_row list"  \<comment> \<open>a pass in flight writes the table\<close>
  | Pass_exits pass                  \<comment> \<open>a pass in flight reaches its \<open>finally\<close> block\<close>
  | Foreground bool                  \<comment> \<open>a request calls \<open>setUserRequestActive\<close>\<close>

fun step :: "store_state \<times> pass list \<Rightarrow> event \<Rightarrow> store_state \<times> pass list" where
  "step (s, ps) Tick =
     (case runSmartWorker_enter s of None \<Rightarrow> (s, ps) | Some s' \<Rightarrow> (s', ps @ [Worker_pass]))"
| "step (s, ps) Manual_call =
     (case manualRefresh_enter s of None \<Rightarrow> (s, ps) | Some s' \<Rightarrow> (s', ps @ [Manual_pass]))"
| "step (s, ps) (Pass_stores p tbl) =
     (if p \<in> set ps then (s\<lparr>gam_daily_data := tbl\<rparr>, ps) else (s, ps))"
| "step (s, ps) (Pass_exits p) =
     (if p \<in> set ps then
        ((case p of Worker_pass \<Rightarrow> runSmartWorker_exit s | Manual_pass \<Rightarrow> manualRefresh_exit s),
         remove1 p ps)
      else (s, ps))"
| "step (s, ps) (Foreground active) = (setUserRequestActive active s, ps)"

definition run_events :: "store_state \<times> pass list \<Rightarrow> event list \<Rightarrow> store_state \<times> pass list" where
  "run_events = foldl step"

definition idle :: "table_row list \<Rightarrow> store_state \<times> pass list" where
  \<comment> \<open>The module after loading: both flags clear, no pass in flight.\<close>
  "idle tbl = (\<lparr> workerRunning = False, userRequestInProgress = False,
                 gam_daily_data = tbl, upstream_calls = [] \<rparr>, [])"

subsection \<open>getDataForRange\<close>







subsection \<open>aggregateDays\<close>


definition or_list :: "'a list option \<Rightarrow> 'a list" where
  \<comment> \<open>\<open>xs || []\<close>: an array, even an empty one, is truthy.\<close>
  "or_list xs = (case xs of None \<Rightarrow> [] | Some ys \<Rightarrow> ys)"





record days_acc =
  domainMap :: "(string \<times> row) list"
  allAccounts :: "account_summary list"
  accountCount :: nat
  successfulAccounts :: nat
  failedAccounts :: nat










section \<open>Fetching and aggregating accounts (google-ad-manager.js)\<close>

subsection \<open>Currency conversion\<close>

text \<open>\<open>exchangeRatesCache.rates\<close>: how many USD one unit of a currency is worth. The table
  below is the one the module starts with and keeps when the refresh fails.\<close>

type_synonym rates = "(string \<times> rat) list"

definition fallback_rates :: rates where
  "fallback_rates = [(''USD'', 1), (''EUR'', 118 / 100), (''GBP'', 127 / 100), (''BRL'', 17 / 100)]"

definition convertToUSD :: "rates \<Rightarrow> rat \<Rightarrow> string \<Rightarrow> rat" where
  \<comment> \<open>A currency without a rate, or with the rate \<open>0\<close>, is treated as USD.\<close>
  "convertToUSD rs amount fromCurrency =
     (if fromCurrency = ''USD'' then amount
      else (case map_of rs fromCurrency of
              None \<Rightarrow> amount
            | Some rate \<Rightarrow> if rate = 0 then amount else amount * rate))"

subsection \<open>transformReportData\<close>

text \<open>
  A row of the upstream report after the extraction at the head of the \<open>map\<close> callback:
  the first dimension value as text and the six metric values as numbers.
\<close>

record api_row =
  dimensionValue :: string
  metric_impressions :: rat
  metric_clicks :: rat
  metric_revenue :: rat
  metric_ecpm :: rat
  metric_ctr :: rat
  metric_unfilled :: rat

text \<open>
  What a client instance carries into the transformation: the account's domain, the
  current time as ISO text, and \<open>extractDomainFromAdUnit\<close>, which is a parameter here:
  the results below hold for every function in its place.
\<close>

record client =
  client_domain :: "string option"
  now_iso :: string
  extractDomainFromAdUnit :: "string \<Rightarrow> string option \<Rightarrow> string"

definition parseDateValue :: "client \<Rightarrow> string \<Rightarrow> string" where
  "parseDateValue c dateValue =
     (if dateValue = [] then now_iso c
      else if length dateValue = 8 then
        take 4 dateValue @ ''-'' @ take 2 (drop 4 dateValue) @ ''-'' @ take 2 (drop 6 dateValue) @
        ''T00:00:00.000Z''
      else dateValue)"

definition transformRow :: "client \<Rightarrow> string \<Rightarrow> api_row \<Rightarrow> row" where
  "transformRow c dimensionType r =
     (let baseData =
            empty_row\<lparr> date := Some (now_iso c),
              impressions := Some (metric_impressions r),
              clicks := Some (metric_clicks r),
              ctr := Some (metric_ctr r * 100),
              revenue := Some (metric_revenue r),
              ecpm := Some (metric_ecpm r),
              unfilled := Some (metric_unfilled r) \<rparr>
      in if dimensionType = ''AD_UNIT'' then
           baseData\<lparr> adUnitName := Some (dimensionValue r),
             domain := Some (extractDomainFromAdUnit c (dimensionValue r) (client_domain c)),
             unfilled_impressions := Some (metric_unfilled r) \<rparr>
         else if dimensionType = ''ORDER'' then baseData\<lparr> orderName := Some (dimensionValue r) \<rparr>
         else if dimensionType = ''LINE_ITEM'' then
           baseData\<lparr> lineItemName := Some (dimensionValue r) \<rparr>
         else if dimensionType = ''DATE'' then
           baseData\<lparr> date := Some (parseDateValue c (dimensionValue r)) \<rparr>
         else baseData)"

definition transformReportData :: "client \<Rightarrow> api_row list \<Rightarrow> string \<Rightarrow> row list" where
  "transformReportData c rows dimensionType = map (transformRow c dimensionType) rows"

subsection \<open>One account: getStatistics and getAccountStatistics\<close>

record js_error =
  status :: "nat option"  \<comment> \<open>\<open>error.response?.status\<close>\<close>
  message :: string

definition is429 :: "js_error \<Rightarrow> bool" where
  "is429 err \<longleftrightarrow>
     status err = Some 429 \<or> includes_str (message err) ''429'' \<or>
     includes_str (message err) ''RESOURCE_EXHAUSTED''"

record stats =
  st_success :: bool
  st_data :: "row list"
  st_error :: "string option"

definition getStatistics ::
  "client \<Rightarrow> string \<Rightarrow> js_error + api_row list \<Rightarrow> js_error + stats" where
  \<comment> \<open>The method of the client class. Its argument is the outcome of the workflow
      create, run, poll, fetch; \<open>Inl\<close> in the result is the exception it rethrows.\<close>
  "getStatistics c dimensionType workflow =
     (case workflow of
        Inr rows \<Rightarrow>
          Inr \<lparr> st_success = True, st_data = transformReportData c rows dimensionType,
                st_error = None \<rparr>
      | Inl err \<Rightarrow>
          if is429 err then Inl err
          else Inr \<lparr> st_success = False, st_data = [], st_error = Some (message err) \<rparr>)"

record account =
  acc_id :: nat
  account_name :: string
  network_code :: string
  currency_code :: "string option"
  acc_timezone :: "string option"
  acc_domain :: "string option"

record account_result =
  accountId :: nat
  accountName :: string
  networkCode :: string
  currencyCode :: "string option"
  timezone :: "string option"
  success :: bool
  error :: "error_value option"
  data :: "row list"

text \<open>What one attempt meets: the exception of \<open>getValidAccessToken\<close> if it throws, and
  the outcome of the upstream workflow.\<close>

record attempt_env =
  token_error :: "js_error option"
  workflow :: "js_error + api_row list"

definition one_attempt :: "client \<Rightarrow> string \<Rightarrow> attempt_env \<Rightarrow> js_error + stats" where
  \<comment> \<open>The body of the \<open>try\<close> up to the result of \<open>accountClient.getStatistics\<close>.\<close>
  "one_attempt c dimensionType a =
     (case token_error a of
        Some err \<Rightarrow> Inl err
      | None \<Rightarrow> getStatistics c dimensionType (workflow a))"

datatype last_error = No_error | Last_text "string option" | Last_object js_error

definition final_error :: "last_error \<Rightarrow> error_value" where
  \<comment> \<open>\<open>lastError?.message || lastError || 'Unknown error after retries'\<close>\<close>
  "final_error l =
     (case l of
        No_error \<Rightarrow> Err_text ''Unknown error after retries''
      | Last_text t \<Rightarrow> Err_text (or_str t ''Unknown error after retries'')
      | Last_object err \<Rightarrow>
          if message err \<noteq> [] then Err_text (message err)
          else Err_object (status err) (message err))"

definition success_result :: "account \<Rightarrow> stats \<Rightarrow> account_result" where
  "success_result a st =
     \<lparr> accountId = acc_id a, accountName = account_name a, networkCode = network_code a,
       currencyCode = Some (or_str (currency_code a) ''USD''),
       timezone = Some (or_str (acc_timezone a) ''America/New_York''),
       success = st_success st, error = None, data = st_data st \<rparr>"

definition failure_result :: "account \<Rightarrow> last_error \<Rightarrow> account_result" where
  "failure_result a l =
     \<lparr> accountId = acc_id a, accountName = account_name a, networkCode = network_code a,
       currencyCode = None, timezone = None,
       success = False, error = Some (final_error l), data = [] \<rparr>"

definition maxRetries :: nat where
  "maxRetries = 3"

text \<open>The result of \<open>getAccountStatistics\<close> with two observations of its run: the pauses
  it made (milliseconds, in order) and the number of attempts it started.\<close>

record fetch_trace =
  returned :: account_result
  waits :: "nat list"
  attempts :: nat

function attempt_loop ::
  "(nat \<Rightarrow> js_error + stats) \<Rightarrow> account \<Rightarrow> nat \<Rightarrow> last_error \<Rightarrow> nat list \<Rightarrow> fetch_trace" where
  \<comment> \<open>\<open>for (let attempt = 1; attempt <= maxRetries; attempt++) { ... }\<close> and the
      \<open>return\<close> after it.\<close>
  "attempt_loop outcomes a attempt lastError ws =
     (if attempt \<le> maxRetries then
        (case outcomes attempt of
           Inr st \<Rightarrow>
             if st_success st then
               \<lparr> returned = success_result a st, waits = ws, attempts = attempt \<rparr>
             else attempt_loop outcomes a (attempt + 1) (Last_text (st_error st)) ws
         | Inl err \<Rightarrow>
             if is429 err \<and> attempt < maxRetries then
               attempt_loop outcomes a (attempt + 1) (Last_object err)
                 (ws @ [5000 * 2 ^ (attempt - 1)])
             else
               \<lparr> returned = failure_result a (Last_object err), waits = ws,
                 attempts = attempt \<rparr>)
      else \<lparr> returned = failure_result a lastError, waits = ws, attempts = attempt - 1 \<rparr>)"
  by pat_completeness auto
termination
  by (relation "measure (\<lambda>(outcomes, a, attempt, lastError, ws). maxRetries + 1 - attempt)") auto

definition outcome_of ::
  "client \<Rightarrow> string \<Rightarrow> (nat \<Rightarrow> attempt_env) \<Rightarrow> account \<Rightarrow> nat \<Rightarrow> js_error + stats" where
  \<comment> \<open>What the \<open>try\<close> of attempt \<open>n\<close> yields. The client is built from the account, so
      its domain is \<open>account.domain || null\<close>.\<close>
  "outcome_of c dimensionType upstream a n =
     one_attempt (c\<lparr>client_domain := (if truthy (acc_domain a) then acc_domain a else None)\<rparr>)
       dimensionType (upstream n)"

definition getAccountStatistics ::
  "client \<Rightarrow> string \<Rightarrow> (nat \<Rightarrow> attempt_env) \<Rightarrow> account \<Rightarrow> fetch_trace" where
  "getAccountStatistics c dimensionType upstream a =
     attempt_loop (outcome_of c dimensionType upstream a) a 1 No_error []"

definition rate_limited :: "js_error + stats \<Rightarrow> bool" where
  \<comment> \<open>The attempt ended in an exception that carries the rate-limit signal.\<close>
  "rate_limited out = (case out of Inl err \<Rightarrow> is429 err | Inr st \<Rightarrow> False)"

definition reported_failure :: "js_error + stats \<Rightarrow> bool" where
  \<comment> \<open>The attempt returned a result with \<open>success: false\<close>.\<close>
  "reported_failure out = (case out of Inl err \<Rightarrow> False | Inr st \<Rightarrow> \<not> st_success st)"

subsection \<open>aggregateMetrics\<close>

definition group_key :: "string \<Rightarrow> string \<Rightarrow> row \<Rightarrow> string" where
  \<comment> \<open>The \<open>switch\<close> on the dimension type. A key that is \<open>undefined\<close> names the property
      \<open>undefined\<close>.\<close>
  "group_key dimensionType accName r =
     (if dimensionType = ''AD_UNIT'' then
        or_str (ad_unit_name r) (or_str (name r) ''Unknown'') @ '' ('' @ accName @ '')''
      else if dimensionType = ''ORDER'' then
        or_str (order_name r) (or_str (name r) ''Unknown'') @ '' ('' @ accName @ '')''
      else if dimensionType = ''LINE_ITEM'' then
        or_str (line_item_name r) (or_str (name r) ''Unknown'') @ '' ('' @ accName @ '')''
      else (case date r of None \<Rightarrow> ''undefined'' | Some d \<Rightarrow> d))"

record metrics_acc =
  aggregated :: "(string \<times> row) list"
  totalImpressions :: rat
  totalClicks :: rat
  totalRevenue :: rat
  totalUnfilled :: rat

definition start_group :: "string \<Rightarrow> row \<Rightarrow> row" where
  \<comment> \<open>The object created for a key seen for the first time: the row's own fields, with
      the metrics reset and the account's currency recorded.\<close>
  "start_group accountCurrency r =
     r\<lparr> impressions := Some 0, clicks := Some 0, revenue := Some 0,
        original_currency := Some accountCurrency,
        unfilled_impressions := Some 0,
        accounts := Some [], currencies := Some [] \<rparr>"

definition merge_row :: "string \<Rightarrow> string \<Rightarrow> row \<Rightarrow> row \<Rightarrow> row" where
  \<comment> \<open>The additions to the group \<open>g\<close>: the revenue is added as it is, in the currency of
      the account.\<close>
  "merge_row accName accountCurrency g r =
     g\<lparr> impressions := Some (or_num (impressions g) + or_num (impressions r)),
        clicks := Some (or_num (clicks g) + or_num (clicks r)),
        revenue := Some (or_num (revenue g) + or_num (revenue r)),
        unfilled_impressions :=
          Some (or_num (unfilled_impressions g) + or_num (unfilled_impressions r)),
        accounts := Some (or_list (accounts g) @ [accName]),
        currencies :=
          Some (if accountCurrency \<in> set (or_list (currencies g))
                then or_list (currencies g)
                else or_list (currencies g) @ [accountCurrency]) \<rparr>"

definition add_metrics_row ::
  "rates \<Rightarrow> string \<Rightarrow> account_result \<Rightarrow> metrics_acc \<Rightarrow> row \<Rightarrow> metrics_acc" where
  \<comment> \<open>The body of \<open>accountResult.data.forEach\<close>.\<close>
  "add_metrics_row rs dimensionType accountResult m r =
     (let accountCurrency = or_str (currencyCode accountResult) ''USD'';
          key = group_key dimensionType (accountName accountResult) r;
          g = (case map_of (aggregated m) key of
                 None \<Rightarrow> start_group accountCurrency r
               | Some g0 \<Rightarrow> g0);
          revenueOriginal = or_num (revenue r);
          revenueInUSD = convertToUSD rs revenueOriginal accountCurrency
      in \<lparr> aggregated =
             AList.update key (merge_row (accountName accountResult) accountCurrency g r)
               (aggregated m),
           totalImpressions = totalImpressions m + or_num (impressions r),
           totalClicks = totalClicks m + or_num (clicks r),
           totalRevenue = totalRevenue m + revenueInUSD,
           totalUnfilled = totalUnfilled m + or_num (unfilled_impressions r) \<rparr>)"

definition add_account ::
  "rates \<Rightarrow> string \<Rightarrow> metrics_acc \<Rightarrow> account_result \<Rightarrow> metrics_acc" where
  \<comment> \<open>The body of \<open>accountsData.forEach\<close>; the \<open>data\<close> of a result is always an array.\<close>
  "add_account rs dimensionType m accountResult =
     (if \<not> success accountResult then m
      else foldl (add_metrics_row rs dimensionType accountResult) m (data accountResult))"

definition finish_group :: "row \<Rightarrow> row" where
  \<comment> \<open>The \<open>map\<close> over \<open>Object.entries(aggregated)\<close>.\<close>
  "finish_group g =
     g\<lparr> ctr := Some (toFixed2 (if or_num (impressions g) > 0
                                then or_num (clicks g) / or_num (impressions g) * 100 else 0)),
        ecpm := Some (toFixed2 (if or_num (impressions g) > 0
                                 then or_num (revenue g) / or_num (impressions g) * 1000 else 0)) \<rparr>"

definition metrics_totals :: "metrics_acc \<Rightarrow> totals" where
  "metrics_totals m =
     (let totalRequests = totalImpressions m + totalUnfilled m;
          pmr = (if totalRequests > 0 then totalImpressions m / totalRequests * 100 else 0);
          activeView = (if totalImpressions m > 0
                        then (totalImpressions m - totalUnfilled m) / totalImpressions m * 100
                        else 0);
          ctr = (if totalImpressions m > 0 then totalClicks m / totalImpressions m * 100 else 0);
          ecpm = (if totalImpressions m > 0 then totalRevenue m / totalImpressions m * 1000 else 0)
      in \<lparr> t_impressions = totalImpressions m, t_clicks = totalClicks m,
           t_revenue = totalRevenue m, t_unfilled_impressions = totalUnfilled m,
           t_ctr = toFixed2 ctr, t_ecpm = toFixed2 ecpm,
           t_requests_served = totalRequests,
           t_pmr = toFixed2 pmr, t_active_view = toFixed2 activeView \<rparr>)"

definition metrics_floating :: "totals \<Rightarrow> (string \<times> rat) list" where
  "metrics_floating t =
     [(''impressions'', t_impressions t), (''clicks'', t_clicks t), (''revenue'', t_revenue t),
      (''ctr'', t_ctr t), (''ecpm'', t_ecpm t), (''pmr'', t_pmr t),
      (''active_view'', t_active_view t), (''requests_served'', t_requests_served t),
      (''unfilled_impressions'', t_unfilled_impressions t)]"

record aggregated_results =
  m_data :: "row list"
  m_totals :: totals
  m_FloatingNumbers :: "(string \<times> rat) list"

definition init_metrics :: metrics_acc where
  \<comment> \<open>The variables before \<open>accountsData.forEach\<close>.\<close>
  "init_metrics = \<lparr> aggregated = [], totalImpressions = 0, totalClicks = 0, totalRevenue = 0,
                     totalUnfilled = 0 \<rparr>"

definition collect :: "rates \<Rightarrow> account_result list \<Rightarrow> string \<Rightarrow> metrics_acc" where
  \<comment> \<open>The state after \<open>accountsData.forEach\<close>.\<close>
  "collect rs accountsData dimensionType =
     foldl (add_account rs dimensionType) init_metrics accountsData"

definition aggregateMetrics :: "rates \<Rightarrow> account_result list \<Rightarrow> string \<Rightarrow> aggregated_results" where
  "aggregateMetrics rs accountsData dimensionType =
     (let m = collect rs accountsData dimensionType;
          t = metrics_totals m
      in \<lparr> m_data = map (\<lambda>(key, g). finish_group g) (aggregated m),
           m_totals = t, m_FloatingNumbers = metrics_floating t \<rparr>)"

subsection \<open>getMultiAccountStatistics\<close>

definition BATCH_SIZE :: nat where
  "BATCH_SIZE = 3"

datatype settled = Fulfilled account_result | Rejected js_error

function process_batches :: "(account \<Rightarrow> account_result) \<Rightarrow> account list \<Rightarrow> nat \<Rightarrow> settled list" where
  \<comment> \<open>\<open>for (let i = 0; i < accounts.length; i += BATCH_SIZE)\<close>: each batch is
      \<open>accounts.slice(i, i + BATCH_SIZE)\<close> and its results are pushed in order. The promise
      of \<open>getAccountStatistics\<close> always fulfils.\<close>
  "process_batches f accs i =
     (if i < length accs then
        map (\<lambda>a. Fulfilled (f a)) (take BATCH_SIZE (drop i accs)) @
        process_batches f accs (i + BATCH_SIZE)
      else [])"
  by pat_completeness auto
termination
  by (relation "measure (\<lambda>(f, accs, i). length accs - i)") (auto simp: BATCH_SIZE_def)

definition successful :: "settled list \<Rightarrow> account_result list" where
  \<comment> \<open>\<open>filter(r => r.status === 'fulfilled' && r.value?.success === true).map(r => r.value)\<close>\<close>
  "successful rs =
     List.map_filter (\<lambda>r. case r of Fulfilled v \<Rightarrow> if success v then Some v else None
                                  | Rejected _ \<Rightarrow> None) rs"

definition failed :: "account list \<Rightarrow> settled list \<Rightarrow> account_failure list" where
  \<comment> \<open>The \<open>forEach\<close> that fills \<open>failedAccounts\<close>, pairing each result with the account
      at its index.\<close>
  "failed accs rs =
     List.map_filter
       (\<lambda>(a, r). case r of
            Rejected err \<Rightarrow>
              Some \<lparr> f_account = account_name a,
                     f_error = Err_text (if message err = [] then ''Unknown error'' else message err) \<rparr>
          | Fulfilled v \<Rightarrow>
              if \<not> success v then
                Some \<lparr> f_account = account_name a,
                       f_error = (case error v of
                                    None \<Rightarrow> Err_text ''Unknown error (success=false)''
                                  | Some (Err_text t) \<Rightarrow>
                                      Err_text (if t = [] then ''Unknown error (success=false)''
                                                else t)
                                  | Some x \<Rightarrow> x) \<rparr>
              else None)
       (zip accs rs)"

definition error_body :: "string \<Rightarrow> report" where
  \<comment> \<open>\<open>{success: false, error: error.message, data: []}\<close>\<close>
  "error_body msg =
     \<lparr> r_success = False, r_data = Some [], r_totals = None, r_FloatingNumbers = None,
       r_message = None, r_error = Some msg, r_accountCount = None,
       r_successfulAccounts = None, r_failedAccounts = None, r_accounts = None,
       r_errors = None \<rparr>"

definition getMultiAccountStatistics ::
  "rates \<Rightarrow> client \<Rightarrow> string \<Rightarrow> string + account list \<Rightarrow> (account \<Rightarrow> nat \<Rightarrow> attempt_env)
     \<Rightarrow> response" where
  \<comment> \<open>The arguments after the dimension type are what the handler meets: the outcome of
      the query for the user's active accounts (\<open>Inl\<close> its error message) and, for each
      account, what its attempts meet. The rates are the table in force after
      \<open>getExchangeRates\<close>, which catches its own errors.\<close>
  "getMultiAccountStatistics rs c dimensionType accounts_query upstream =
     (case accounts_query of
        Inl msg \<Rightarrow> Status 500 (error_body msg)
      | Inr accs \<Rightarrow>
          if length accs = 0 then
            Json \<lparr> r_success = True, r_data = Some [], r_totals = None,
                   r_FloatingNumbers = None,
                   r_message = Some ''No active Google Ad Manager accounts found'',
                   r_error = None, r_accountCount = Some 0, r_successfulAccounts = None,
                   r_failedAccounts = None, r_accounts = None, r_errors = None \<rparr>
          else
            (let accountsPromises =
                   process_batches
                     (\<lambda>a. returned (getAccountStatistics c dimensionType (upstream a) a)) accs 0;
                 accountsData = successful accountsPromises;
                 failedAccounts = failed accs accountsPromises;
                 aggregatedResults = aggregateMetrics rs accountsData dimensionType
             in Json \<lparr> r_success = True, r_data = Some (m_data aggregatedResults),
                       r_totals = Some (m_totals aggregatedResults),
                       r_FloatingNumbers = Some (m_FloatingNumbers aggregatedResults),
                       r_message = None, r_error = None,
                       r_accountCount = Some (length accs),
                       r_successfulAccounts = Some (length accountsData),
                       r_failedAccounts = Some (length failedAccounts),
                       r_accounts =
                         Some (map (\<lambda>a. \<lparr> s_id = accountId a, s_name = accountName a,
                                           s_success = success a,
                                           s_dataCount = length (data a) \<rparr>) accountsData),
                       r_errors = (if length failedAccounts > 0 then Some failedAccounts
                                   else None) \<rparr>))"

section \<open>The tiered cache (redis-cache.js)\<close>

text \<open>
  The hot tier is a Redis client: its entries (key, text, time of expiry) and, for each
  command the module uses, whether the command throws. The durable tier is the table
  \<open>gam_cache\<close>, with the error its statements meet if the database fails. Cached values
  are report objects. User ids and dates are the texts that the cache key is built from.
\<close>

record redis_client =
  redis_entries :: "(string \<times> blob \<times> int) list"
  get_throws :: bool
  setEx_throws :: bool
  keys_throws :: bool
  del_throws :: bool

record cache_row =
  c_user_id :: string
  cache_key :: string
  c_data :: blob
  c_start_date :: string
  c_end_date :: string
  c_dimension_type :: string
  expires_at :: int

record cache_state =
  redisClient :: "redis_client option"
  redisEnabled :: bool
  gam_cache :: "cache_row list"
  sqlite_error :: "string option"

definition generateCacheKey :: "string \<Rightarrow> string \<Rightarrow> string \<Rightarrow> string \<Rightarrow> string" where
  "generateCacheKey userId startDate endDate dimensionType =
     ''gam:'' @ userId @ '':'' @ startDate @ '':'' @ endDate @ '':'' @ dimensionType"

definition redis_get :: "int \<Rightarrow> redis_client \<Rightarrow> string \<Rightarrow> blob option" where
  \<comment> \<open>The reply of \<open>GET\<close>: an entry is gone once its time to live has passed.\<close>
  "redis_get now cl k =
     (case map_of (redis_entries cl) k of
        None \<Rightarrow> None
      | Some (txt, expiry) \<Rightarrow> if now < expiry then Some txt else None)"

definition getFromRedis :: "int \<Rightarrow> cache_state \<Rightarrow> string \<Rightarrow> report option" where
  \<comment> \<open>Every exception inside the \<open>try\<close>, of the command or of \<open>JSON.parse\<close>, ends in
      \<open>return null\<close>.\<close>
  "getFromRedis now st cacheKey =
     (if \<not> redisEnabled st then None
      else (case redisClient st of
              None \<Rightarrow> None
            | Some cl \<Rightarrow>
                if get_throws cl then None
                else (case redis_get now cl cacheKey of
                        None \<Rightarrow> None
                      | Some Malformed \<Rightarrow> None
                      | Some (Json_text v) \<Rightarrow> v)))"

definition saveToRedis :: "int \<Rightarrow> string \<Rightarrow> report \<Rightarrow> nat \<Rightarrow> cache_state \<Rightarrow> cache_state" where
  \<comment> \<open>\<open>SETEX\<close> rejects a time to live of \<open>0\<close>; the \<open>catch\<close> only logs.\<close>
  "saveToRedis now cacheKey v ttlSeconds st =
     (if \<not> redisEnabled st then st
      else (case redisClient st of
              None \<Rightarrow> st
            | Some cl \<Rightarrow>
                if setEx_throws cl \<or> ttlSeconds = 0 then st
                else st\<lparr>redisClient :=
                        Some (cl\<lparr>redis_entries :=
                                   AList.update cacheKey
                                     (Json_text (Some v), now + int ttlSeconds * 1000)
                                     (redis_entries cl)\<rparr>)\<rparr>))"

definition getFromSQLite :: "int \<Rightarrow> cache_state \<Rightarrow> string \<Rightarrow> string \<Rightarrow> string + report option" where
  \<comment> \<open>\<open>WHERE user_id = ? AND cache_key = ? AND expires_at > ?\<close>; a database error
      rejects, a text that does not parse resolves to \<open>null\<close>.\<close>
  "getFromSQLite now st userId cacheKey =
     (case sqlite_error st of
        Some err \<Rightarrow> Inl err
      | None \<Rightarrow>
          (case find (\<lambda>r. c_user_id r = userId \<and> cache_key r = cacheKey \<and> expires_at r > now)
                  (gam_cache st) of
             None \<Rightarrow> Inr None
           | Some r \<Rightarrow> (case c_data r of Malformed \<Rightarrow> Inr None | Json_text v \<Rightarrow> Inr v)))"


definition getCachedData ::
  "int \<Rightarrow> string \<Rightarrow> string \<Rightarrow> string \<Rightarrow> string \<Rightarrow> cache_state
     \<Rightarrow> (string + report option) \<times> cache_state" where
  \<comment> \<open>\<open>Inl\<close> is a rejection; the state returned carries the warming of the hot tier.\<close>
  "getCachedData now userId startDate endDate dimensionType st =
     (let cacheKey = generateCacheKey userId startDate endDate dimensionType in
      case getFromRedis now st cacheKey of
        Some redisData \<Rightarrow> (Inr (Some redisData), st)
      | None \<Rightarrow>
          (case getFromSQLite now st userId cacheKey of
             Inl err \<Rightarrow> (Inl err, st)
           | Inr None \<Rightarrow> (Inr None, st)
           | Inr (Some sqliteData) \<Rightarrow>
               (Inr (Some sqliteData),
                if redisEnabled st then saveToRedis now cacheKey sqliteData 300 st else st)))"






section \<open>The vocabulary of the specification\<close>

text \<open>
  The words in which the properties below are stated, for comparison with the functions
  above: the invariant of the worker, the constituent rows of a list of days and the sum
  of a metric over the rows of one domain key, the contributing rows of a list of
  per-account results and the two sums of their revenue, and the per-account result of
  an account.
\<close>

definition single_flight :: "store_state \<times> pass list \<Rightarrow> bool" where
  \<comment> \<open>At most one pass is in flight, and the flag is set exactly while one is.\<close>
  "single_flight sp \<longleftrightarrow> length (snd sp) \<le> 1 \<and> (workerRunning (fst sp) \<longleftrightarrow> snd sp \<noteq> [])"















definition result_of ::
  "client \<Rightarrow> string \<Rightarrow> (account \<Rightarrow> nat \<Rightarrow> attempt_env) \<Rightarrow> account \<Rightarrow> account_result" where
  \<comment> \<open>The per-account record that \<open>getAccountStatistics\<close> returns for an account.\<close>
  "result_of c dimensionType upstream a =
     returned (getAccountStatistics c dimensionType (upstream a) a)"

definition response_rows :: "response \<Rightarrow> row list" where
  \<comment> \<open>The \<open>data\<close> rows of a response body.\<close>
  "response_rows r = (case r of Json body \<Rightarrow> or_list (r_data body) | Status code body \<Rightarrow> [])"

section \<open>Sample inputs\<close>

definition sample_row :: row where
  "sample_row = empty_row\<lparr> impressions := Some 1000, clicks := Some 20, revenue := Some 5,
     adUnitName := Some ''site_top'', domain := Some ''site'' \<rparr>"

definition sample_report :: report where
  "sample_report =
     \<lparr> r_success = True, r_data = Some [sample_row], r_totals = None,
       r_FloatingNumbers = None, r_message = None, r_error = None,
       r_accountCount = Some 2, r_successfulAccounts = Some 2, r_failedAccounts = Some 0,
       r_accounts = None, r_errors = None \<rparr>"

definition sample_env :: env where
  \<comment> \<open>An upstream that answers every fetch with \<open>sample_report\<close>, and a database that works.\<close>
  "sample_env =
     \<lparr> gamGetMultiAccountStatistics = (\<lambda>userId d dimensionType. Json sample_report),
       admin_users = Inr [1], insert_error = None, select_error = None,
       now_ms = 0, today = 100, utc_hour = 12 \<rparr>"

definition failing_env :: env where
  \<comment> \<open>The query for the admin user fails.\<close>
  "failing_env = sample_env\<lparr>admin_users := Inl ''SQLITE_BUSY''\<rparr>"







definition sample_client :: client where
  "sample_client = \<lparr> client_domain = None, now_iso = ''2025-01-01T00:00:00.000Z'',
                      extractDomainFromAdUnit = (\<lambda>adUnitName accountDomain. adUnitName) \<rparr>"

definition two_units :: "api_row list" where
  \<comment> \<open>The upstream report of one account with two ad units.\<close>
  "two_units =
     [\<lparr> dimensionValue = ''site1_top'', metric_impressions = 1000, metric_clicks = 20,
        metric_revenue = 5, metric_ecpm = 5, metric_ctr = 2 / 100, metric_unfilled = 10 \<rparr>,
      \<lparr> dimensionValue = ''site2_top'', metric_impressions = 2000, metric_clicks = 10,
        metric_revenue = 7, metric_ecpm = 7 / 2, metric_ctr = 5 / 1000, metric_unfilled = 0 \<rparr>]"

definition account_A :: account where
  "account_A = \<lparr> acc_id = 1, account_name = ''A'', network_code = ''111'',
                  currency_code = Some ''USD'', acc_timezone = None, acc_domain = None \<rparr>"


definition server_error :: js_error where
  "server_error = \<lparr> status = Some 500, message = ''Internal error'' \<rparr>"

definition too_many_requests :: js_error where
  "too_many_requests = \<lparr> status = Some 429, message = ''Too Many Requests'' \<rparr>"

definition flaky_upstream :: "nat \<Rightarrow> attempt_env" where
  \<comment> \<open>The workflow fails with a server error on the first attempt and works afterwards.\<close>
  "flaky_upstream n =
     (if n = 1 then \<lparr> token_error = None, workflow = Inl server_error \<rparr>
      else \<lparr> token_error = None, workflow = Inr two_units \<rparr>)"

definition limited_upstream :: "nat \<Rightarrow> attempt_env" where
  \<comment> \<open>Every attempt meets the rate limit.\<close>
  "limited_upstream n = \<lparr> token_error = None, workflow = Inl too_many_requests \<rparr>"

definition account_B :: account where
  "account_B = \<lparr> acc_id = 2, account_name = ''B'', network_code = ''222'',
                  currency_code = Some ''EUR'', acc_timezone = None, acc_domain = None \<rparr>"

definition mixed_upstream :: "account \<Rightarrow> nat \<Rightarrow> attempt_env" where
  \<comment> \<open>Account A answers with its report; every other account meets the rate limit.\<close>
  "mixed_upstream a n =
     (if account_name a = ''A'' then \<lparr> token_error = None, workflow = Inr two_units \<rparr>
      else limited_upstream n)"


section \<open>The worker and the manual refresh\<close>

lemma fetchAndStoreDay_flags:
  "workerRunning (snd (fetchAndStoreDay e u d dm s)) = workerRunning s \<and>
   userRequestInProgress (snd (fetchAndStoreDay e u d dm s)) = userRequestInProgress s"
  by (simp add: fetchAndStoreDay_def Let_def split: sum.splits)

lemma fetchAndStoreDay_result_flags:
  "fetchAndStoreDay e u d dm s = (r, s') \<Longrightarrow>
   workerRunning s' = workerRunning s \<and> userRequestInProgress s' = userRequestInProgress s"
  using fetchAndStoreDay_flags[of e u d dm s] by simp

lemma fetchAndStoreDay_skipped:
  "userRequestInProgress s \<Longrightarrow> fetchAndStoreDay e u d dm s = (Inr None, s)"
  by (simp add: fetchAndStoreDay_def)

lemma manualRefresh_idle:
  "\<not> workerRunning s \<Longrightarrow>
   manualRefresh e u d dm s =
     (Refresh_error null_data_message,
      s\<lparr>workerRunning := False, userRequestInProgress := False\<rparr>)"
  by (simp add: manualRefresh_def manualRefresh_enter_def manualRefresh_try_def
      manualRefresh_exit_def fetchAndStoreDay_skipped)

lemma manualRefresh_busy:
  "workerRunning s \<Longrightarrow>
   manualRefresh e u d dm s = (Refresh_error ''Worker is already running. Please wait.'', s)"
  by (simp add: manualRefresh_def manualRefresh_enter_def)

lemma runSmartWorker_try_flag:
  "workerRunning (snd (runSmartWorker_try e s)) = workerRunning s"
  unfolding runSmartWorker_try_def
  by (auto split: sum.splits list.splits prod.splits dest!: fetchAndStoreDay_result_flags)

lemma runSmartWorker_clears:
  "\<not> workerRunning s \<Longrightarrow> \<not> workerRunning (runSmartWorker e s)"
  by (simp add: runSmartWorker_def runSmartWorker_enter_def runSmartWorker_exit_def)

lemma runSmartWorker_guarded:
  "workerRunning s \<or> userRequestInProgress s \<Longrightarrow> runSmartWorker e s = s"
  by (auto simp: runSmartWorker_def runSmartWorker_enter_def)

lemma single_flight_step: "single_flight sp \<Longrightarrow> single_flight (step sp ev)"
proof (cases sp)
  case (Pair s ps)
  assume "single_flight sp"
  with Pair have i: "length ps \<le> 1" "workerRunning s \<longleftrightarrow> ps \<noteq> []"
    by (simp_all add: single_flight_def)
  show ?thesis
  proof (cases ev)
    case Tick
    with Pair i show ?thesis
      by (auto simp: single_flight_def runSmartWorker_enter_def split: option.splits if_splits)
  next
    case Manual_call
    with Pair i show ?thesis
      by (auto simp: single_flight_def manualRefresh_enter_def split: option.splits if_splits)
  next
    case (Pass_stores p tbl)
    with Pair i show ?thesis by (auto simp: single_flight_def)
  next
    case (Pass_exits p)
    with Pair i show ?thesis
      by (cases ps; cases p)
         (auto simp: single_flight_def runSmartWorker_exit_def manualRefresh_exit_def)
  next
    case (Foreground b)
    with Pair i show ?thesis by (auto simp: single_flight_def setUserRequestActive_def)
  qed
qed

lemma single_flight_run: "single_flight sp \<Longrightarrow> single_flight (run_events sp evs)"
  unfolding run_events_def
  by (induction evs arbitrary: sp) (simp_all add: single_flight_step)

lemma single_flight_idle: "single_flight (idle tbl)"
  by (simp add: single_flight_def idle_def)

lemma pass_exit_clears:
  "p \<in> set ps \<Longrightarrow> \<not> workerRunning (fst (step (s, ps) (Pass_exits p)))"
  by (cases p) (simp_all add: runSmartWorker_exit_def manualRefresh_exit_def)

text \<open>
  C1. A call of \<open>manualRefresh\<close> made while no pass is in flight should fetch and store
  the day's report and return a success outcome with the refreshed counts. Evaluated on
  the idle module with an upstream that answers every fetch with a report of one domain
  and two accounts: \<open>manualRefresh\<close> sets \<open>userRequestInProgress\<close> before it calls
  \<open>fetchAndStoreDay\<close>, whose first check then returns \<open>null\<close>; no fetch is made, nothing
  is stored, and the outcome is the failure raised by reading \<open>data\<close> of \<open>null\<close>. The same
  \<open>fetchAndStoreDay\<close> called directly on the idle module does fetch and store.
\<close>

theorem manualRefresh_makes_no_fetch:
  "manualRefresh sample_env 1 100 ''AD_UNIT'' (fst (idle [])) =
     (Refresh_error null_data_message, fst (idle [])) \<and>
   upstream_calls (snd (manualRefresh sample_env 1 100 ''AD_UNIT'' (fst (idle [])))) = [] \<and>
   fst (fetchAndStoreDay sample_env 1 100 ''AD_UNIT'' (fst (idle []))) = Inr (Some sample_report) \<and>
   upstream_calls (snd (fetchAndStoreDay sample_env 1 100 ''AD_UNIT'' (fst (idle [])))) =
     [(1, 100, ''AD_UNIT'')]"
  by (simp add: manualRefresh_idle idle_def fetchAndStoreDay_def sample_env_def fake_res_def
      saveDayData_def Let_def)

text \<open>
  C8. At most one worker pass is in flight at any time. After any sequence of ticks,
  manual calls, foreground requests and pass exits, starting from the idle module: at
  most one pass is in flight and the Running flag is set exactly then; while the flag is
  set, a tick and a manual call change nothing (the manual call returns its failure
  outcome, the tick returns); while \<open>userRequestInProgress\<close> is set, a tick changes
  nothing; the exit of a pass in flight clears the flag; and a whole run of
  \<open>runSmartWorker\<close> or \<open>manualRefresh\<close> that starts with the flag clear ends with the flag
  clear, whatever the database and the upstream answer.
\<close>

theorem worker_single_flight:
  "case run_events (idle tbl) evs of (s, ps) \<Rightarrow>
     length ps \<le> 1 \<and> (workerRunning s \<longleftrightarrow> ps \<noteq> []) \<and>
     (workerRunning s \<longrightarrow>
        step (s, ps) Tick = (s, ps) \<and> step (s, ps) Manual_call = (s, ps) \<and>
        runSmartWorker e s = s \<and>
        manualRefresh e u d dm s =
          (Refresh_error ''Worker is already running. Please wait.'', s)) \<and>
     (userRequestInProgress s \<longrightarrow> step (s, ps) Tick = (s, ps) \<and> runSmartWorker e s = s) \<and>
     (\<forall>p \<in> set ps. \<not> workerRunning (fst (step (s, ps) (Pass_exits p)))) \<and>
     (\<not> workerRunning s \<longrightarrow>
        \<not> workerRunning (runSmartWorker e s) \<and>
        \<not> workerRunning (snd (manualRefresh e u d dm s)))"
proof -
  obtain s ps where sp: "run_events (idle tbl) evs = (s, ps)"
    by (cases "run_events (idle tbl) evs")
  have "single_flight (s, ps)"
    using single_flight_run[OF single_flight_idle, of tbl evs] sp by simp
  then have one: "length ps \<le> 1" and flag: "workerRunning s \<longleftrightarrow> ps \<noteq> []"
    by (simp_all add: single_flight_def)
  have busy: "workerRunning s \<longrightarrow>
        step (s, ps) Tick = (s, ps) \<and> step (s, ps) Manual_call = (s, ps) \<and>
        runSmartWorker e s = s \<and>
        manualRefresh e u d dm s =
          (Refresh_error ''Worker is already running. Please wait.'', s)"
    by (simp add: runSmartWorker_enter_def manualRefresh_enter_def runSmartWorker_guarded
        manualRefresh_busy)
  have user: "userRequestInProgress s \<longrightarrow>
        step (s, ps) Tick = (s, ps) \<and> runSmartWorker e s = s"
    by (simp add: runSmartWorker_enter_def runSmartWorker_guarded)
  have exits: "\<forall>p \<in> set ps. \<not> workerRunning (fst (step (s, ps) (Pass_exits p)))"
    using pass_exit_clears by blast
  have clear: "\<not> workerRunning s \<longrightarrow>
        \<not> workerRunning (runSmartWorker e s) \<and>
        \<not> workerRunning (snd (manualRefresh e u d dm s))"
    by (simp add: runSmartWorker_clears manualRefresh_idle)
  show ?thesis
    unfolding sp using one flag busy user exits clear by simp
qed

theorem worker_single_flight_witness:
  "run_events (idle []) [Tick, Tick, Manual_call] =
     (\<lparr> workerRunning = True, userRequestInProgress = False, gam_daily_data = [],
        upstream_calls = [] \<rparr>, [Worker_pass]) \<and>
   run_events (idle []) [Tick, Pass_exits Worker_pass] = idle [] \<and>
   run_events (idle []) [Foreground True, Tick] =
     (\<lparr> workerRunning = False, userRequestInProgress = True, gam_daily_data = [],
        upstream_calls = [] \<rparr>, []) \<and>
   \<not> workerRunning (runSmartWorker sample_env (fst (idle []))) \<and>
   \<not> workerRunning (runSmartWorker failing_env (fst (idle []))) \<and>
   fst (runSmartWorker_try sample_env (fst (idle []))) \<and>
   \<not> fst (runSmartWorker_try failing_env (fst (idle [])))"
  using worker_single_flight[where tbl="[]" and evs="[Tick, Tick]" and e=sample_env and u=1 and d=100
      and dm="''AD_UNIT''"]
    worker_single_flight[where tbl="[]" and evs="[Tick]" and e=sample_env and u=1 and d=100
      and dm="''AD_UNIT''"]
    worker_single_flight[where tbl="[]" and evs="[Foreground True]" and e=sample_env and u=1 and d=100
      and dm="''AD_UNIT''"]
    worker_single_flight[where tbl="[]" and evs="[]" and e=sample_env and u=1 and d=100
      and dm="''AD_UNIT''"]
    worker_single_flight[where tbl="[]" and evs="[]" and e=failing_env and u=1 and d=100
      and dm="''AD_UNIT''"]
  by (simp add: run_events_def idle_def runSmartWorker_enter_def manualRefresh_enter_def
      runSmartWorker_exit_def setUserRequestActive_def runSmartWorker_def
      runSmartWorker_try_def sample_env_def failing_env_def fetchAndStoreDay_def
      fake_res_def saveDayData_def Let_def)

section \<open>Range reads\<close>













section \<open>Aggregation over days\<close>
































section \<open>Aggregation over accounts\<close>





















lemma transformed_row_names:
  "ad_unit_name (transformRow c dm r) = None \<and> order_name (transformRow c dm r) = None \<and>
   line_item_name (transformRow c dm r) = None \<and> name (transformRow c dm r) = None"
  by (simp add: transformRow_def Let_def empty_row_def)

lemma transformed_group_key:
  assumes "r \<in> set (transformReportData c rows dm)"
    and "dm = ''AD_UNIT'' \<or> dm = ''ORDER'' \<or> dm = ''LINE_ITEM''"
  shows "group_key dm accName r = ''Unknown ('' @ accName @ '')''"
proof -
  from assms(1) obtain x where "r = transformRow c dm x"
    by (auto simp: transformReportData_def)
  with assms(2) transformed_row_names[of c dm x] show ?thesis
    by (auto simp: group_key_def or_str_def)
qed

text \<open>
  C5. For the named dimensions the group key should combine the row's ad-unit, order or
  line-item name with the account's display name, so that rows of one account with
  different names fall into different groups. Evaluated on one account A whose upstream
  report has the ad units \<open>site1_top\<close> (1000 impressions) and \<open>site2_top\<close> (2000
  impressions): \<open>transformReportData\<close> writes the name to \<open>adUnitName\<close>, the key reads
  \<open>ad_unit_name\<close> and \<open>name\<close>, both rows get the key \<open>Unknown (A)\<close>, and the response
  holds a single row with 3000 impressions under the first ad unit's name.
\<close>

theorem aggregateMetrics_merges_ad_units:
  "map adUnitName (transformReportData sample_client two_units ''AD_UNIT'') =
     [Some ''site1_top'', Some ''site2_top''] \<and>
   map (group_key ''AD_UNIT'' ''A'') (transformReportData sample_client two_units ''AD_UNIT'') =
     [''Unknown (A)'', ''Unknown (A)''] \<and>
   map impressions
     (response_rows (getMultiAccountStatistics fallback_rates sample_client ''AD_UNIT''
        (Inr [account_A]) (\<lambda>a attempt. \<lparr> token_error = None, workflow = Inr two_units \<rparr>))) =
     [Some 3000] \<and>
   map adUnitName
     (response_rows (getMultiAccountStatistics fallback_rates sample_client ''AD_UNIT''
        (Inr [account_A]) (\<lambda>a attempt. \<lparr> token_error = None, workflow = Inr two_units \<rparr>))) =
     [Some ''site1_top'']"
proof (intro conjI)
  show "map adUnitName (transformReportData sample_client two_units ''AD_UNIT'') =
     [Some ''site1_top'', Some ''site2_top'']" by code_simp
  show "map (group_key ''AD_UNIT'' ''A'') (transformReportData sample_client two_units ''AD_UNIT'') =
     [''Unknown (A)'', ''Unknown (A)'']" by code_simp
  show "map impressions
     (response_rows (getMultiAccountStatistics fallback_rates sample_client ''AD_UNIT''
        (Inr [account_A]) (\<lambda>a attempt. \<lparr> token_error = None, workflow = Inr two_units \<rparr>))) =
     [Some 3000]" by code_simp
  show "map adUnitName
     (response_rows (getMultiAccountStatistics fallback_rates sample_client ''AD_UNIT''
        (Inr [account_A]) (\<lambda>a attempt. \<lparr> token_error = None, workflow = Inr two_units \<rparr>))) =
     [Some ''site1_top'']" by code_simp
qed





section \<open>Fetching one account and all accounts\<close>

declare attempt_loop.simps [simp del]

lemma attempt_loop_3:
  "attempt_loop f a 3 l ws =
     (case f 3 of
        Inr st \<Rightarrow> if st_success st then \<lparr> returned = success_result a st, waits = ws, attempts = 3 \<rparr>
                   else \<lparr> returned = failure_result a (Last_text (st_error st)), waits = ws, attempts = 3 \<rparr>
      | Inl err \<Rightarrow> \<lparr> returned = failure_result a (Last_object err), waits = ws, attempts = 3 \<rparr>)"
  by (subst attempt_loop.simps, subst attempt_loop.simps[of _ _ "3 + 1"])
     (simp add: maxRetries_def split: sum.splits)

lemma attempt_loop_2:
  "attempt_loop f a 2 l ws =
     (case f 2 of
        Inr st \<Rightarrow> if st_success st then \<lparr> returned = success_result a st, waits = ws, attempts = 2 \<rparr>
                   else attempt_loop f a 3 (Last_text (st_error st)) ws
      | Inl err \<Rightarrow> if is429 err then attempt_loop f a 3 (Last_object err) (ws @ [10000])
                    else \<lparr> returned = failure_result a (Last_object err), waits = ws, attempts = 2 \<rparr>)"
  by (subst attempt_loop.simps) (simp add: maxRetries_def split: sum.splits)

lemma attempt_loop_1:
  "attempt_loop f a 1 l ws =
     (case f 1 of
        Inr st \<Rightarrow> if st_success st then \<lparr> returned = success_result a st, waits = ws, attempts = 1 \<rparr>
                   else attempt_loop f a 2 (Last_text (st_error st)) ws
      | Inl err \<Rightarrow> if is429 err then attempt_loop f a 2 (Last_object err) (ws @ [5000])
                    else \<lparr> returned = failure_result a (Last_object err), waits = ws, attempts = 1 \<rparr>)"
proof -
  have two: "Suc (Suc 0) = 2" by simp
  show ?thesis
    by (subst attempt_loop.simps) (simp add: maxRetries_def two split: sum.splits)
qed

lemma upt_small: "[1..<1] = []" "[1..<2] = [1::nat]" "[1..<3] = [1, 2::nat]"
  by (simp_all add: upt_rec)

lemma below: "(1 \<le> k \<and> k < (2::nat)) = (k = 1)" "(1 \<le> k \<and> k < (3::nat)) = (k = 1 \<or> k = 2)"
  "(1 \<le> k \<and> k < (1::nat)) = False"
  by auto

lemma results_shape:
  "success (success_result a st) = st_success st"
  "\<not> success (failure_result a l)" "data (failure_result a l) = []"
  "error (failure_result a l) \<noteq> None" "accountId (failure_result a l) = acc_id a"
  "accountName (failure_result a l) = account_name a"
  "networkCode (failure_result a l) = network_code a"
  by (simp_all add: success_result_def failure_result_def)

lemma trace_bounds:
  "1 \<le> attempts (attempt_loop f a 1 No_error []) \<and>
   attempts (attempt_loop f a 1 No_error []) \<le> maxRetries"
  unfolding attempt_loop_1 attempt_loop_2 attempt_loop_3
  by (simp add: maxRetries_def split: sum.splits)

lemma trace_retried:
  "1 \<le> k \<and> k < attempts (attempt_loop f a 1 No_error []) \<Longrightarrow>
   rate_limited (f k) \<or> reported_failure (f k)"
  unfolding attempt_loop_1 attempt_loop_2 attempt_loop_3
  by (auto simp: rate_limited_def reported_failure_def below less_Suc_eq le_Suc_eq
      numeral_2_eq_2 numeral_3_eq_3 split: sum.splits if_splits)

lemma trace_waits:
  "waits (attempt_loop f a 1 No_error []) =
     map (\<lambda>k. 5000 * 2 ^ (k - 1))
       (filter (\<lambda>k. rate_limited (f k)) [1..<attempts (attempt_loop f a 1 No_error [])])"
  unfolding attempt_loop_1 attempt_loop_2 attempt_loop_3
  by (simp add: rate_limited_def upt_small upt_small[unfolded One_nat_def] split: sum.splits)

lemma trace_last:
  "(case f (attempts (attempt_loop f a 1 No_error [])) of
      Inr st \<Rightarrow>
        if st_success st then returned (attempt_loop f a 1 No_error []) = success_result a st
        else attempts (attempt_loop f a 1 No_error []) = maxRetries \<and>
             returned (attempt_loop f a 1 No_error []) = failure_result a (Last_text (st_error st))
    | Inl err \<Rightarrow>
        (is429 err \<longrightarrow> attempts (attempt_loop f a 1 No_error []) = maxRetries) \<and>
        returned (attempt_loop f a 1 No_error []) = failure_result a (Last_object err))"
  unfolding attempt_loop_1 attempt_loop_2 attempt_loop_3
  by (simp add: maxRetries_def split: sum.splits)

lemma trace_result_kind:
  "(\<exists>st. st_success st \<and> returned (attempt_loop f a 1 No_error []) = success_result a st) \<or>
   (\<exists>l. returned (attempt_loop f a 1 No_error []) = failure_result a l)"
  unfolding attempt_loop_1 attempt_loop_2 attempt_loop_3
  by (auto split: sum.splits)

lemma trace_failure:
  assumes "\<not> success (returned (attempt_loop f a 1 No_error []))"
  shows "data (returned (attempt_loop f a 1 No_error [])) = [] \<and>
   error (returned (attempt_loop f a 1 No_error [])) \<noteq> None \<and>
   accountId (returned (attempt_loop f a 1 No_error [])) = acc_id a \<and>
   accountName (returned (attempt_loop f a 1 No_error [])) = account_name a \<and>
   networkCode (returned (attempt_loop f a 1 No_error [])) = network_code a"
proof -
  from trace_result_kind[of f a] assms obtain l where
    "returned (attempt_loop f a 1 No_error []) = failure_result a l"
    by (auto simp: results_shape)
  then show ?thesis by (simp add: results_shape)
qed

lemma trace_exhausted:
  assumes "\<forall>k. 1 \<le> k \<and> k \<le> maxRetries \<longrightarrow> rate_limited (f k)"
  shows "attempts (attempt_loop f a 1 No_error []) = 3 \<and>
         waits (attempt_loop f a 1 No_error []) = [5000, 10000] \<and>
         \<not> success (returned (attempt_loop f a 1 No_error []))"
proof -
  from assms have "rate_limited (f 1)" "rate_limited (f 2)" "rate_limited (f 3)"
    by (simp_all add: maxRetries_def)
  then show ?thesis
    unfolding attempt_loop_1 attempt_loop_2 attempt_loop_3
    by (auto simp: rate_limited_def results_shape split: sum.splits)
qed

text \<open>
  C6 (amended). \<open>getAccountStatistics\<close> makes at least one and at most three attempts
  on the same account. An attempt is followed by another only if it ended in a
  rate-limit (429) exception or returned \<open>success: false\<close>; after the k-th attempt it
  pauses 5000 * 2^(k-1) ms exactly when that attempt was rate-limited (5 s, then 10 s),
  and an attempt that returned \<open>success: false\<close> is retried at once. The last attempt
  decides the result: a successful report is returned as the account's result; a
  thrown error that is not a rate limit ends the attempts at once, and a rate-limit error
  or a \<open>success: false\<close> on the third attempt ends them, each with a structured
  failure record (account identity, error, empty data) instead of an exception. When
  every attempt is rate-limited there are three attempts, pauses of 5 s and 10 s, and a
  failure record.
\<close>

theorem getAccountStatistics_retries:
  "let tr = getAccountStatistics c dm upstream a; out = outcome_of c dm upstream a in
     1 \<le> attempts tr \<and> attempts tr \<le> maxRetries \<and>
     (\<forall>k. 1 \<le> k \<and> k < attempts tr \<longrightarrow> rate_limited (out k) \<or> reported_failure (out k)) \<and>
     waits tr =
       map (\<lambda>k. 5000 * 2 ^ (k - 1)) (filter (\<lambda>k. rate_limited (out k)) [1..<attempts tr]) \<and>
     (case out (attempts tr) of
        Inr st \<Rightarrow>
          if st_success st then returned tr = success_result a st
          else attempts tr = maxRetries \<and>
               returned tr = failure_result a (Last_text (st_error st))
      | Inl err \<Rightarrow>
          (is429 err \<longrightarrow> attempts tr = maxRetries) \<and>
          returned tr = failure_result a (Last_object err)) \<and>
     (\<not> success (returned tr) \<longrightarrow>
        data (returned tr) = [] \<and> error (returned tr) \<noteq> None \<and>
        accountId (returned tr) = acc_id a \<and> accountName (returned tr) = account_name a \<and>
        networkCode (returned tr) = network_code a) \<and>
     ((\<forall>k. 1 \<le> k \<and> k \<le> maxRetries \<longrightarrow> rate_limited (out k)) \<longrightarrow>
        attempts tr = 3 \<and> waits tr = [5000, 10000] \<and> \<not> success (returned tr))"
  unfolding Let_def getAccountStatistics_def
  using trace_bounds[of "outcome_of c dm upstream a" a]
    trace_retried[of _ "outcome_of c dm upstream a" a]
    trace_waits[of "outcome_of c dm upstream a" a]
    trace_last[of "outcome_of c dm upstream a" a]
    trace_failure[of "outcome_of c dm upstream a" a]
    trace_exhausted[of "outcome_of c dm upstream a" a]
  by (intro conjI allI impI) (assumption | blast)+

theorem getAccountStatistics_retries_witness:
  "rate_limited (outcome_of sample_client ''AD_UNIT'' limited_upstream account_A 1) \<and>
   rate_limited (outcome_of sample_client ''AD_UNIT'' limited_upstream account_A 2) \<and>
   rate_limited (outcome_of sample_client ''AD_UNIT'' limited_upstream account_A 3) \<and>
   attempts (getAccountStatistics sample_client ''AD_UNIT'' limited_upstream account_A) = 3 \<and>
   waits (getAccountStatistics sample_client ''AD_UNIT'' limited_upstream account_A) =
     [5000, 10000] \<and>
   \<not> success (returned (getAccountStatistics sample_client ''AD_UNIT'' limited_upstream account_A)) \<and>
   data (returned (getAccountStatistics sample_client ''AD_UNIT'' limited_upstream account_A)) = [] \<and>
   accountName (returned (getAccountStatistics sample_client ''AD_UNIT'' limited_upstream account_A)) =
     ''A''"
proof -
  have r: "rate_limited (outcome_of sample_client ''AD_UNIT'' limited_upstream account_A k)" for k
    by (simp add: rate_limited_def outcome_of_def one_attempt_def limited_upstream_def
        getStatistics_def is429_def too_many_requests_def)
  note T = getAccountStatistics_retries[where c=sample_client and dm="''AD_UNIT''"
      and upstream=limited_upstream and a=account_A, unfolded Let_def]
  from T r have e: "attempts (getAccountStatistics sample_client ''AD_UNIT'' limited_upstream account_A) = 3"
    "waits (getAccountStatistics sample_client ''AD_UNIT'' limited_upstream account_A) = [5000, 10000]"
    "\<not> success (returned (getAccountStatistics sample_client ''AD_UNIT'' limited_upstream account_A))"
    by blast+
  with T have f: "data (returned (getAccountStatistics sample_client ''AD_UNIT'' limited_upstream account_A)) = []"
    "accountName (returned (getAccountStatistics sample_client ''AD_UNIT'' limited_upstream account_A)) =
       account_name account_A"
    by blast+
  show ?thesis using r e f by (simp add: account_A_def)
qed

text \<open>
  The claim as first stated fails when the report workflow of the first attempt fails
  with a server error (no rate limit) and the second attempt succeeds: the account is
  retried without a pause and the result is a success, not a failure record.
\<close>

theorem getAccountStatistics_other_error_counterexample:
  "outcome_of sample_client ''AD_UNIT'' flaky_upstream account_A 1 =
     Inr \<lparr> st_success = False, st_data = [], st_error = Some ''Internal error'' \<rparr> \<and>
   \<not> is429 server_error \<and>
   success (returned (getAccountStatistics sample_client ''AD_UNIT'' flaky_upstream account_A)) \<and>
   attempts (getAccountStatistics sample_client ''AD_UNIT'' flaky_upstream account_A) = 2 \<and>
   waits (getAccountStatistics sample_client ''AD_UNIT'' flaky_upstream account_A) = []"
proof (intro conjI)
  show "outcome_of sample_client ''AD_UNIT'' flaky_upstream account_A 1 =
     Inr \<lparr> st_success = False, st_data = [], st_error = Some ''Internal error'' \<rparr>" by code_simp
  show "\<not> is429 server_error" by code_simp
  show "success (returned (getAccountStatistics sample_client ''AD_UNIT'' flaky_upstream account_A))"
    by code_simp
  show "attempts (getAccountStatistics sample_client ''AD_UNIT'' flaky_upstream account_A) = 2"
    by code_simp
  show "waits (getAccountStatistics sample_client ''AD_UNIT'' flaky_upstream account_A) = []"
    by code_simp
qed

declare process_batches.simps [simp del]

lemma process_batches_drop:
  "process_batches f accs i = map (\<lambda>a. Fulfilled (f a)) (drop i accs)"
proof (induction f accs i rule: process_batches.induct)
  case (1 f accs i)
  show ?case
  proof (cases "i < length accs")
    case True
    have "drop (i + BATCH_SIZE) accs = drop BATCH_SIZE (drop i accs)"
      by (simp add: add.commute)
    then have "drop i accs = take BATCH_SIZE (drop i accs) @ drop (i + BATCH_SIZE) accs"
      by (simp only: append_take_drop_id)
    then have "map (\<lambda>a. Fulfilled (f a)) (drop i accs) =
        map (\<lambda>a. Fulfilled (f a)) (take BATCH_SIZE (drop i accs)) @
        map (\<lambda>a. Fulfilled (f a)) (drop (i + BATCH_SIZE) accs)"
      by (metis map_append)
    with True 1 show ?thesis
      by (subst process_batches.simps) simp
  next
    case False
    then show ?thesis by (subst process_batches.simps) simp
  qed
qed

lemma process_batches_all: "process_batches f accs 0 = map (\<lambda>a. Fulfilled (f a)) accs"
  by (simp add: process_batches_drop)

lemma successful_fulfilled:
  "successful (map (\<lambda>a. Fulfilled (f a)) accs) = filter success (map f accs)"
  by (induction accs) (simp_all add: successful_def List.map_filter_def)

lemma final_error_text: "final_error l \<noteq> Err_text []"
  by (cases l) (auto simp: final_error_def or_str_def split: option.splits)

lemma result_of_error:
  "\<not> success (result_of c dm upstream a) \<Longrightarrow>
   \<exists>e. error (result_of c dm upstream a) = Some e \<and> e \<noteq> Err_text []"
  unfolding result_of_def getAccountStatistics_def
  using trace_result_kind[of "outcome_of c dm (upstream a) a" a]
  by (auto simp: results_shape failure_result_def final_error_text)

lemma failed_fulfilled:
  "failed accs (map (\<lambda>a. Fulfilled (result_of c dm upstream a)) accs) =
     map (\<lambda>a. \<lparr> f_account = account_name a,
                 f_error = (case error (result_of c dm upstream a) of
                              Some e \<Rightarrow> e | None \<Rightarrow> Err_text []) \<rparr>)
       (filter (\<lambda>a. \<not> success (result_of c dm upstream a)) accs)"
proof -
  have z: "zip accs (map (\<lambda>a. Fulfilled (result_of c dm upstream a)) accs) =
      map (\<lambda>a. (a, Fulfilled (result_of c dm upstream a))) accs"
    by (induction accs) simp_all
  show ?thesis
    unfolding failed_def z
  proof (induction accs)
    case Nil
    show ?case by (simp add: List.map_filter_def)
  next
    case (Cons a as)
    show ?case
    proof (cases "success (result_of c dm upstream a)")
      case True
      with Cons show ?thesis by (simp add: List.map_filter_def)
    next
      case False
      from result_of_error[OF False] obtain e where
        e: "error (result_of c dm upstream a) = Some e" "e \<noteq> Err_text []" by blast
      then have "(case e of Err_text t \<Rightarrow>
                     Err_text (if t = [] then ''Unknown error (success=false)'' else t)
                  | Err_object x y \<Rightarrow> e) = e"
        by (cases e) auto
      with Cons False e show ?thesis
        by (simp add: List.map_filter_def split: error_value.splits)
    qed
  qed
qed

lemma multi_body:
  assumes "accs \<noteq> []"
  shows "getMultiAccountStatistics rs c dm (Inr accs) upstream =
     Json \<lparr> r_success = True,
       r_data = Some (m_data (aggregateMetrics rs (filter success (map (result_of c dm upstream) accs)) dm)),
       r_totals = Some (m_totals (aggregateMetrics rs (filter success (map (result_of c dm upstream) accs)) dm)),
       r_FloatingNumbers =
         Some (m_FloatingNumbers (aggregateMetrics rs (filter success (map (result_of c dm upstream) accs)) dm)),
       r_message = None, r_error = None,
       r_accountCount = Some (length accs),
       r_successfulAccounts = Some (length (filter success (map (result_of c dm upstream) accs))),
       r_failedAccounts =
         Some (length (failed accs (map (\<lambda>a. Fulfilled (result_of c dm upstream a)) accs))),
       r_accounts =
         Some (map (\<lambda>a. \<lparr> s_id = accountId a, s_name = accountName a, s_success = success a,
                           s_dataCount = length (data a) \<rparr>)
                 (filter success (map (result_of c dm upstream) accs))),
       r_errors =
         (if length (failed accs (map (\<lambda>a. Fulfilled (result_of c dm upstream a)) accs)) > 0
          then Some (failed accs (map (\<lambda>a. Fulfilled (result_of c dm upstream a)) accs))
          else None) \<rparr>"
proof -
  have rf: "(\<lambda>a. returned (getAccountStatistics c dm (upstream a) a)) = result_of c dm upstream"
    by (simp add: result_of_def fun_eq_iff)
  show ?thesis
    using assms
    unfolding getMultiAccountStatistics_def rf process_batches_all successful_fulfilled Let_def
    by simp
qed

text \<open>
  C7. \<open>getMultiAccountStatistics\<close> answers with an error response (status 500) when the
  query for the user's accounts fails, and otherwise always with \<open>success: true\<close>.
  With at least one account, the body carries the aggregate of the accounts that
  succeeded, \<open>accountCount\<close> (all accounts), \<open>successfulAccounts\<close> and \<open>failedAccounts\<close>,
  and an \<open>errors\<close> list with the name and the error of every account that failed, in
  order; the list is absent exactly when no account failed.
\<close>

theorem getMultiAccountStatistics_partial_failure:
  "getMultiAccountStatistics rs c dm (Inl msg) upstream = Status 500 (error_body msg) \<and>
   (\<exists>body. getMultiAccountStatistics rs c dm (Inr accs) upstream = Json body \<and> r_success body \<and>
      (accs \<noteq> [] \<longrightarrow>
         r_data body =
           Some (m_data (aggregateMetrics rs
                   (filter success (map (result_of c dm upstream) accs)) dm)) \<and>
         r_totals body =
           Some (m_totals (aggregateMetrics rs
                   (filter success (map (result_of c dm upstream) accs)) dm)) \<and>
         r_accountCount body = Some (length accs) \<and>
         r_successfulAccounts body =
           Some (length (filter (\<lambda>a. success (result_of c dm upstream a)) accs)) \<and>
         r_failedAccounts body =
           Some (length (filter (\<lambda>a. \<not> success (result_of c dm upstream a)) accs)) \<and>
         map f_account (or_list (r_errors body)) =
           map account_name (filter (\<lambda>a. \<not> success (result_of c dm upstream a)) accs) \<and>
         map (\<lambda>f. Some (f_error f)) (or_list (r_errors body)) =
           map (\<lambda>a. error (result_of c dm upstream a))
             (filter (\<lambda>a. \<not> success (result_of c dm upstream a)) accs) \<and>
         (r_errors body = None \<longleftrightarrow> (\<forall>a \<in> set accs. success (result_of c dm upstream a)))))"
proof (intro conjI)
  show "getMultiAccountStatistics rs c dm (Inl msg) upstream = Status 500 (error_body msg)"
    by (simp add: getMultiAccountStatistics_def)
  show "\<exists>body. getMultiAccountStatistics rs c dm (Inr accs) upstream = Json body \<and> r_success body \<and>
      (accs \<noteq> [] \<longrightarrow>
         r_data body =
           Some (m_data (aggregateMetrics rs
                   (filter success (map (result_of c dm upstream) accs)) dm)) \<and>
         r_totals body =
           Some (m_totals (aggregateMetrics rs
                   (filter success (map (result_of c dm upstream) accs)) dm)) \<and>
         r_accountCount body = Some (length accs) \<and>
         r_successfulAccounts body =
           Some (length (filter (\<lambda>a. success (result_of c dm upstream a)) accs)) \<and>
         r_failedAccounts body =
           Some (length (filter (\<lambda>a. \<not> success (result_of c dm upstream a)) accs)) \<and>
         map f_account (or_list (r_errors body)) =
           map account_name (filter (\<lambda>a. \<not> success (result_of c dm upstream a)) accs) \<and>
         map (\<lambda>f. Some (f_error f)) (or_list (r_errors body)) =
           map (\<lambda>a. error (result_of c dm upstream a))
             (filter (\<lambda>a. \<not> success (result_of c dm upstream a)) accs) \<and>
         (r_errors body = None \<longleftrightarrow> (\<forall>a \<in> set accs. success (result_of c dm upstream a))))"
  proof (cases "accs = []")
    case True
    then show ?thesis by (simp add: getMultiAccountStatistics_def)
  next
    case False
    let ?bad = "filter (\<lambda>a. \<not> success (result_of c dm upstream a)) accs"
    let ?F = "failed accs (map (\<lambda>a. Fulfilled (result_of c dm upstream a)) accs)"
    have F: "?F = map (\<lambda>a. \<lparr> f_account = account_name a,
                 f_error = (case error (result_of c dm upstream a) of
                              Some e \<Rightarrow> e | None \<Rightarrow> Err_text []) \<rparr>) ?bad"
      by (rule failed_fulfilled)
    have len: "length ?F = length ?bad" unfolding F by simp
    have names: "map f_account ?F = map account_name ?bad" unfolding F by (simp add: comp_def)
    have errs: "map (\<lambda>f. Some (f_error f)) ?F = map (\<lambda>a. error (result_of c dm upstream a)) ?bad"
      unfolding F map_map comp_def
    proof (rule map_cong[OF refl])
      fix a assume "a \<in> set ?bad"
      then have "\<not> success (result_of c dm upstream a)" by simp
      from result_of_error[OF this] obtain e where "error (result_of c dm upstream a) = Some e"
        by blast
      then show "Some (f_error \<lparr> f_account = account_name a,
                 f_error = (case error (result_of c dm upstream a) of
                              Some e \<Rightarrow> e | None \<Rightarrow> Err_text []) \<rparr>) =
            error (result_of c dm upstream a)" by simp
    qed
    have good: "length (filter success (map (result_of c dm upstream) accs)) =
        length (filter (\<lambda>a. success (result_of c dm upstream a)) accs)"
      by (simp add: filter_map comp_def)
    have none: "(?bad = []) \<longleftrightarrow> (\<forall>a \<in> set accs. success (result_of c dm upstream a))"
      by (auto simp: filter_empty_conv)
    show ?thesis
      unfolding multi_body[OF False]
      apply (rule exI, rule conjI, rule refl)
      using len names errs good none
      by (auto simp: or_list_def)
  qed
qed

theorem getMultiAccountStatistics_partial_failure_witness:
  "getMultiAccountStatistics fallback_rates sample_client ''AD_UNIT'' (Inl ''SQLITE_ERROR'')
     mixed_upstream = Status 500 (error_body ''SQLITE_ERROR'') \<and>
   [account_A, account_B] \<noteq> [] \<and>
   (\<exists>body. getMultiAccountStatistics fallback_rates sample_client ''AD_UNIT''
              (Inr [account_A, account_B]) mixed_upstream = Json body \<and>
            r_success body \<and> r_accountCount body = Some 2 \<and>
            r_successfulAccounts body = Some 1 \<and> r_failedAccounts body = Some 1 \<and>
            map f_account (or_list (r_errors body)) = [''B''])"
proof -
  have sA: "success (result_of sample_client ''AD_UNIT'' mixed_upstream account_A)" by code_simp
  have sB: "\<not> success (result_of sample_client ''AD_UNIT'' mixed_upstream account_B)" by code_simp
  have bad: "filter (\<lambda>a. \<not> success (result_of sample_client ''AD_UNIT'' mixed_upstream a))
      [account_A, account_B] = [account_B]" by (simp add: sA sB)
  have good: "filter (\<lambda>a. success (result_of sample_client ''AD_UNIT'' mixed_upstream a))
      [account_A, account_B] = [account_A]" by (simp add: sA sB)
  have ne: "[account_A, account_B] \<noteq> []" by simp
  note T = getMultiAccountStatistics_partial_failure[where rs=fallback_rates and c=sample_client
      and dm="''AD_UNIT''" and msg="''SQLITE_ERROR''" and upstream=mixed_upstream
      and accs="[account_A, account_B]"]
  from T[THEN conjunct2] obtain body where
    b: "getMultiAccountStatistics fallback_rates sample_client ''AD_UNIT''
          (Inr [account_A, account_B]) mixed_upstream = Json body" "r_success body"
    and rest: "[account_A, account_B] \<noteq> [] \<longrightarrow>
         r_data body =
           Some (m_data (aggregateMetrics fallback_rates
                   (filter success (map (result_of sample_client ''AD_UNIT'' mixed_upstream)
                      [account_A, account_B])) ''AD_UNIT'')) \<and>
         r_totals body =
           Some (m_totals (aggregateMetrics fallback_rates
                   (filter success (map (result_of sample_client ''AD_UNIT'' mixed_upstream)
                      [account_A, account_B])) ''AD_UNIT'')) \<and>
         r_accountCount body = Some (length [account_A, account_B]) \<and>
         r_successfulAccounts body =
           Some (length (filter (\<lambda>a. success (result_of sample_client ''AD_UNIT'' mixed_upstream a))
                   [account_A, account_B])) \<and>
         r_failedAccounts body =
           Some (length (filter (\<lambda>a. \<not> success (result_of sample_client ''AD_UNIT'' mixed_upstream a))
                   [account_A, account_B])) \<and>
         map f_account (or_list (r_errors body)) =
           map account_name (filter (\<lambda>a. \<not> success (result_of sample_client ''AD_UNIT'' mixed_upstream a))
                   [account_A, account_B]) \<and>
         map (\<lambda>f. Some (f_error f)) (or_list (r_errors body)) =
           map (\<lambda>a. error (result_of sample_client ''AD_UNIT'' mixed_upstream a))
             (filter (\<lambda>a. \<not> success (result_of sample_client ''AD_UNIT'' mixed_upstream a))
                   [account_A, account_B]) \<and>
         (r_errors body = None \<longleftrightarrow>
            (\<forall>a \<in> set [account_A, account_B].
               success (result_of sample_client ''AD_UNIT'' mixed_upstream a)))"
    by (elim exE conjE) (erule (2) that)
  from rest[THEN mp, OF ne, unfolded bad good] have
    c: "r_accountCount body = Some (length [account_A, account_B])"
      "r_successfulAccounts body = Some (length [account_A])"
      "r_failedAccounts body = Some (length [account_B])"
      "map f_account (or_list (r_errors body)) = map account_name [account_B]"
    by blast+
  have "r_accountCount body = Some 2" "r_successfulAccounts body = Some 1"
    "r_failedAccounts body = Some 1" "map f_account (or_list (r_errors body)) = [''B'']"
    using c by (simp_all add: account_B_def)
  with b T[THEN conjunct1] ne show ?thesis by (intro conjI exI[of _ body]) assumption+
qed

section \<open>The tiered cache\<close>






lemma saveToRedis_durable:
  "gam_cache (saveToRedis now k v ttl st) = gam_cache st \<and>
   sqlite_error (saveToRedis now k v ttl st) = sqlite_error st"
  by (simp add: saveToRedis_def split: option.splits)

lemma getCachedData_durable:
  "gam_cache (snd (getCachedData now u s e dm st)) = gam_cache st"
  by (simp add: getCachedData_def Let_def saveToRedis_durable split: sum.splits option.splits)








end
